theory Spec2Isabelle
  imports Complex_Main "HOL-Library.Log_Nat"
begin

section \<open>Canvas surface lifecycle of react-skia-pack\<close>

text \<open>
  The two canvas components of the package are embedded side by side:
  \<^item> \<open>SkiaInteractiveCanvas\<close> (\<^verbatim>\<open>src/skia-interactive-canvas.tsx\<close>): the functions
    \<open>setupSurface\<close>, \<open>draw\<close>, \<open>cleanup\<close>, \<open>redraw\<close> and the pointer handlers;
  \<^item> \<open>SkiaCanvas\<close> (\<^verbatim>\<open>skia-canvas.tsx\<close>): the functions with the suffix \<open>_plain\<close>.

  The React refs and props of one mounted component, the browser's frame scheduler and
  the CanvasKit engine are one explicit state, the record \<open>world\<close>. A JavaScript call
  that may throw returns \<open>js_error + 'a\<close> next to the state it leaves behind; a
  \<^verbatim>\<open>try/catch\<close> of the source is a \<open>case\<close> on that sum.
  A JavaScript number is the rational it denotes. The product that sizes the canvas is
  rounded to the nearest double, as the multiplication of the source is
  (\<open>js_times\<close>); the pointer arithmetic is kept exact.
\<close>

subsection \<open>Data\<close>

type_synonym surface = nat
type_synonym frame_id = nat

datatype js_error =
  HwSurfaceError | SwSurfaceError | DeleteError | GetCanvasError | CanvasOpError
  | DrawCallbackError | FlushError

text \<open>What one call of \<^verbatim>\<open>MakeCanvasSurface\<close> or \<^verbatim>\<open>MakeSWCanvasSurface\<close> does: it throws,
  returns \<^verbatim>\<open>null\<close>, or returns a fresh surface.\<close>

datatype mk_result = MkRaises | MkNull | MkSurface

text \<open>Where the body of one paint throws first, if anywhere.\<close>

datatype fault = NoFault | AtGetCanvas | AtSave | AtScale | AtCallback | AtRestore | AtFlush

record InteractionState =
  isHovering :: bool
  isPressed :: bool
  pointerPosition :: "(rat option \<times> rat option) option"
  activePointerId :: "int option"

text \<open>What the engine's canvas and the draw callback see during one paint.\<close>

datatype canvas_op =
  Save | Scale rat rat | Callback rat rat "InteractionState option" | Restore | Flush

record DOMRect =
  rect_left :: rat
  rect_top :: rat
  rect_width :: rat
  rect_height :: rat

text \<open>The \<^verbatim>\<open><canvas>\<close> element: its backing-store size (\<^verbatim>\<open>canvas.width\<close>,
  \<^verbatim>\<open>canvas.height\<close>), its bounding client rectangle and the pointers it has captured.\<close>

record canvas_el =
  cwidth :: nat
  cheight :: nat
  bounding :: DOMRect
  captured :: "int list"

record world =
  \<comment> \<open>the component: context, refs, props, state\<close>
  canvasKit :: bool
  canvasRef :: "canvas_el option"
  surfaceRef :: "surface option"
  animationFrameRef :: "frame_id option"
  width :: rat
  height :: rat
  animate :: bool
  interactive :: bool
  interactionState :: InteractionState
  \<comment> \<open>the browser\<close>
  devicePixelRatio :: rat
  pending :: "frame_id list"
  next_frame :: frame_id
  \<comment> \<open>the engine\<close>
  live :: "surface list"
  next_surface :: surface
  hw_calls :: nat
  sw_calls :: nat
  hw_plan :: "nat \<Rightarrow> mk_result"
  sw_plan :: "nat \<Rightarrow> mk_result"
  peak_live :: nat
  trace :: "canvas_op list"

subsection \<open>The browser\<close>

text \<open>\<^verbatim>\<open>window.devicePixelRatio || 1\<close>: a falsy ratio (here \<open>0\<close>) reads as \<open>1\<close>.\<close>

definition dpr_or_1 :: "world \<Rightarrow> rat" where
  "dpr_or_1 w = (if devicePixelRatio w = 0 then 1 else devicePixelRatio w)"

text \<open>Multiplication of two numbers: the exact product rounded to the nearest IEEE 754
  double (53 significant bits, ties to the even significand, exponents from \<open>-1022\<close>
  to \<open>1023\<close>, subnormals below). \<open>None\<close> stands for a product that overflows to an
  infinity.\<close>

text \<open>\<open>ilog2 a\<close> is the exponent \<open>e\<close> with \<open>2^e \<le> a < 2^(e+1)\<close>, for \<open>a > 0\<close>.\<close>

definition ilog2 :: "rat \<Rightarrow> int" where
  "ilog2 a = (if 1 \<le> a then bitlen \<lfloor>a\<rfloor> - 1 else - bitlen (\<lceil>1 / a\<rceil> - 1))"

definition round_half_even :: "rat \<Rightarrow> int" where
  "round_half_even y =
     (let f = \<lfloor>y\<rfloor>; d = y - of_int f
      in if d < 1 / 2 then f else if 1 / 2 < d then f + 1 else if even f then f else f + 1)"

definition round_double :: "rat \<Rightarrow> rat option" where
  "round_double x =
     (if x = 0 then Some 0
      else
        let a = \<bar>x\<bar>;
            e = max (ilog2 a) (- 1022);
            ulp = 2 powi (e - 52);
            n = round_half_even (a / ulp)
        in if 1024 \<le> e \<or> (e = 1023 \<and> n = 2 ^ 53) then None
           else Some (sgn x * (of_int n * ulp)))"

definition js_times :: "rat \<Rightarrow> rat \<Rightarrow> rat option" where
  "js_times a b = round_double (a * b)"

text \<open>\<^verbatim>\<open>canvas.width\<close> and \<^verbatim>\<open>canvas.height\<close> are \<^verbatim>\<open>unsigned long\<close> attributes: the
  number assigned is truncated towards zero and reduced modulo \<open>2^32\<close> (an infinity
  becomes \<open>0\<close>), and a value above \<open>2^31 - 1\<close> is replaced by the attribute's default
  (300 and 150).\<close>

definition to_unsigned_long :: "rat option \<Rightarrow> nat" where
  "to_unsigned_long v =
     (case v of
        None \<Rightarrow> 0
      | Some r \<Rightarrow> nat ((if r < 0 then \<lceil>r\<rceil> else \<lfloor>r\<rfloor>) mod 2 ^ 32))"

definition canvas_dim :: "nat \<Rightarrow> rat option \<Rightarrow> nat" where
  "canvas_dim dflt r =
     (let v = to_unsigned_long r in if v \<le> 2147483647 then v else dflt)"

text \<open>\<^verbatim>\<open>requestAnimationFrame\<close> hands out a fresh handle and keeps the request
  outstanding until it fires or is cancelled.\<close>

definition requestAnimationFrame :: "world \<Rightarrow> frame_id \<times> world" where
  "requestAnimationFrame w =
     (next_frame w, w\<lparr>pending := pending w @ [next_frame w], next_frame := Suc (next_frame w)\<rparr>)"

definition cancelAnimationFrame :: "frame_id \<Rightarrow> world \<Rightarrow> world" where
  "cancelAnimationFrame n w = w\<lparr>pending := removeAll n (pending w)\<rparr>"

subsection \<open>The engine\<close>

text \<open>The \<open>n\<close>-th call of a surface constructor behaves as the plan of the world says.
  A surface that is returned is fresh and live. \<open>peak_live\<close> records the largest
  number of surfaces that were ever live at once.\<close>

definition make_surface :: "js_error \<Rightarrow> mk_result \<Rightarrow> world \<Rightarrow> (js_error + surface option) \<times> world" where
  "make_surface e r w =
     (case r of
        MkRaises \<Rightarrow> (Inl e, w)
      | MkNull \<Rightarrow> (Inr None, w)
      | MkSurface \<Rightarrow>
          (Inr (Some (next_surface w)),
           w\<lparr>live := live w @ [next_surface w], next_surface := Suc (next_surface w),
             peak_live := max (peak_live w) (Suc (length (live w)))\<rparr>))"

definition MakeCanvasSurface :: "world \<Rightarrow> (js_error + surface option) \<times> world" where
  "MakeCanvasSurface w =
     make_surface HwSurfaceError (hw_plan w (hw_calls w)) (w\<lparr>hw_calls := Suc (hw_calls w)\<rparr>)"

definition MakeSWCanvasSurface :: "world \<Rightarrow> (js_error + surface option) \<times> world" where
  "MakeSWCanvasSurface w =
     make_surface SwSurfaceError (sw_plan w (sw_calls w)) (w\<lparr>sw_calls := Suc (sw_calls w)\<rparr>)"

text \<open>\<^verbatim>\<open>surface.delete()\<close> releases a live surface; on a handle that is no longer live
  (released before, or invalidated when the context was lost) it throws.\<close>

definition surface_delete :: "surface \<Rightarrow> world \<Rightarrow> (js_error + unit) \<times> world" where
  "surface_delete s w =
     (if s \<in> set (live w) then (Inr (), w\<lparr>live := removeAll s (live w)\<rparr>)
      else (Inl DeleteError, w))"

text \<open>The context of a surface is lost outside the component's control.\<close>

definition invalidate :: "surface \<Rightarrow> world \<Rightarrow> world" where
  "invalidate s w = w\<lparr>live := removeAll s (live w)\<rparr>"

subsection \<open>Surface acquisition\<close>

text \<open>\<^verbatim>\<open>canvas.width = width * dpr; canvas.height = height * dpr\<close>\<close>

definition size_canvas :: "canvas_el \<Rightarrow> world \<Rightarrow> world" where
  "size_canvas canvas w =
     (let dpr = dpr_or_1 w
      in w\<lparr>canvasRef := Some (canvas\<lparr>cwidth := canvas_dim 300 (js_times (width w) dpr),
                                       cheight := canvas_dim 150 (js_times (height w) dpr)\<rparr>)\<rparr>)"

text \<open>\<open>SkiaInteractiveCanvas.setupSurface\<close>.\<close>

definition setupSurface :: "world \<Rightarrow> (js_error + surface option) \<times> world" where
  "setupSurface w =
     (case canvasRef w of
        None \<Rightarrow> (Inr None, w)
      | Some canvas \<Rightarrow>
          if \<not> canvasKit w then (Inr None, w)
          else
            let w1 = (case surfaceRef w of
                        None \<Rightarrow> w
                      | Some old \<Rightarrow> (snd (surface_delete old w))\<lparr>surfaceRef := None\<rparr>);
                w2 = size_canvas canvas w1;
                first = (case MakeCanvasSurface w2 of
                           (Inl _, w3) \<Rightarrow>
                             (case MakeSWCanvasSurface w3 of
                                (Inl _, w4) \<Rightarrow> (Inl (), w4)
                              | (Inr surface, w4) \<Rightarrow> (Inr surface, w4))
                         | (Inr surface, w3) \<Rightarrow> (Inr surface, w3))
            in case first of
                 (Inl _, w5) \<Rightarrow> (Inr None, w5)
               | (Inr (Some surface), w5) \<Rightarrow>
                   (Inr (Some surface), w5\<lparr>surfaceRef := Some surface\<rparr>)
               | (Inr None, w5) \<Rightarrow>
                   (case MakeSWCanvasSurface w5 of
                      (Inl _, w6) \<Rightarrow> (Inr None, w6)
                    | (Inr None, w6) \<Rightarrow> (Inr None, w6)
                    | (Inr (Some surface), w6) \<Rightarrow>
                        (Inr (Some surface), w6\<lparr>surfaceRef := Some surface\<rparr>)))"

text \<open>\<open>SkiaCanvas.setupSurface\<close>: no \<^verbatim>\<open>try/catch\<close>, no software fallback.\<close>

definition setupSurface_plain :: "world \<Rightarrow> (js_error + surface option) \<times> world" where
  "setupSurface_plain w =
     (case canvasRef w of
        None \<Rightarrow> (Inr None, w)
      | Some canvas \<Rightarrow>
          if \<not> canvasKit w then (Inr None, w)
          else
            let released = (case surfaceRef w of
                              None \<Rightarrow> (Inr (), w)
                            | Some old \<Rightarrow>
                                (case surface_delete old w of
                                   (Inl e, w1) \<Rightarrow> (Inl e, w1)
                                 | (Inr u, w1) \<Rightarrow> (Inr u, w1\<lparr>surfaceRef := None\<rparr>)))
            in case released of
                 (Inl e, w1) \<Rightarrow> (Inl e, w1)
               | (Inr _, w1) \<Rightarrow>
                   (case MakeCanvasSurface (size_canvas canvas w1) of
                      (Inl e, w3) \<Rightarrow> (Inl e, w3)
                    | (Inr None, w3) \<Rightarrow> (Inr None, w3)
                    | (Inr (Some surface), w3) \<Rightarrow>
                        (Inr (Some surface), w3\<lparr>surfaceRef := Some surface\<rparr>)))"

subsection \<open>Paint\<close>

text \<open>The statements between the guard and the rescheduling, shared by both components:
  \<^verbatim>\<open>getCanvas\<close>, \<^verbatim>\<open>save\<close>, \<^verbatim>\<open>scale(dpr, dpr)\<close>, the draw callback with the logical
  \<^verbatim>\<open>width\<close> and \<^verbatim>\<open>height\<close>, \<^verbatim>\<open>restore\<close>, \<^verbatim>\<open>flush\<close>. A step that throws leaves the
  steps before it done.\<close>

definition paint_body :: "InteractionState option \<Rightarrow> fault \<Rightarrow> world \<Rightarrow> (js_error + unit) \<times> world" where
  "paint_body ist f w =
     (if f = AtGetCanvas then (Inl GetCanvasError, w)
      else
        let dpr = dpr_or_1 w in
        if f = AtSave then (Inl CanvasOpError, w)
        else
          let w1 = w\<lparr>trace := trace w @ [Save]\<rparr> in
          if f = AtScale then (Inl CanvasOpError, w1)
          else
            let w2 = w1\<lparr>trace := trace w1 @ [Scale dpr dpr]\<rparr>;
                w3 = w2\<lparr>trace := trace w2 @ [Callback (width w2) (height w2) ist]\<rparr>
            in
              if f = AtCallback then (Inl DrawCallbackError, w3)
              else if f = AtRestore then (Inl CanvasOpError, w3)
              else
                let w4 = w3\<lparr>trace := trace w3 @ [Restore]\<rparr> in
                if f = AtFlush then (Inl FlushError, w4)
                else (Inr (), w4\<lparr>trace := trace w4 @ [Flush]\<rparr>))"

text \<open>\<^verbatim>\<open>if (animate) animationFrameRef.current = requestAnimationFrame(draw)\<close>\<close>

definition continue_loop :: "world \<Rightarrow> world" where
  "continue_loop w =
     (if animate w
      then (case requestAnimationFrame w of (n, w1) \<Rightarrow> w1\<lparr>animationFrameRef := Some n\<rparr>)
      else w)"

text \<open>\<open>SkiaInteractiveCanvas.draw\<close>: the body runs inside \<^verbatim>\<open>try\<close>; the \<^verbatim>\<open>catch\<close> warns
  and returns.\<close>

definition draw :: "fault \<Rightarrow> world \<Rightarrow> (js_error + unit) \<times> world" where
  "draw f w =
     (if \<not> canvasKit w \<or> surfaceRef w = None then (Inr (), w)
      else
        case paint_body (Some (interactionState w)) f w of
          (Inl _, w1) \<Rightarrow> (Inr (), w1)
        | (Inr _, w1) \<Rightarrow> (Inr (), continue_loop w1))"

text \<open>\<open>SkiaCanvas.draw\<close>: the same body with no \<^verbatim>\<open>try/catch\<close> around it.\<close>

definition draw_plain :: "fault \<Rightarrow> world \<Rightarrow> (js_error + unit) \<times> world" where
  "draw_plain f w =
     (if \<not> canvasKit w \<or> surfaceRef w = None then (Inr (), w)
      else
        case paint_body None f w of
          (Inl e, w1) \<Rightarrow> (Inl e, w1)
        | (Inr _, w1) \<Rightarrow> (Inr (), continue_loop w1))"

subsection \<open>Mount, unmount, redraw, frame ticks\<close>

text \<open>The body of the setup effect: \<^verbatim>\<open>const surface = setupSurface(); if (surface) draw()\<close>.\<close>

definition effect_run :: "fault \<Rightarrow> world \<Rightarrow> (js_error + unit) \<times> world" where
  "effect_run f w =
     (case setupSurface w of
        (Inl e, w1) \<Rightarrow> (Inl e, w1)
      | (Inr None, w1) \<Rightarrow> (Inr (), w1)
      | (Inr (Some _), w1) \<Rightarrow> draw f w1)"

definition effect_run_plain :: "fault \<Rightarrow> world \<Rightarrow> (js_error + unit) \<times> world" where
  "effect_run_plain f w =
     (case setupSurface_plain w of
        (Inl e, w1) \<Rightarrow> (Inl e, w1)
      | (Inr None, w1) \<Rightarrow> (Inr (), w1)
      | (Inr (Some _), w1) \<Rightarrow> draw_plain f w1)"

text \<open>\<^verbatim>\<open>if (animationFrameRef.current) { cancelAnimationFrame(...); ... = null }\<close>: the
  test is JavaScript truthiness, so a handle \<open>0\<close> would be skipped.\<close>

definition cancel_loop :: "world \<Rightarrow> world" where
  "cancel_loop w =
     (case animationFrameRef w of
        None \<Rightarrow> w
      | Some n \<Rightarrow>
          if n = 0 then w else (cancelAnimationFrame n w)\<lparr>animationFrameRef := None\<rparr>)"

text \<open>The cleanup of the setup effect of \<open>SkiaInteractiveCanvas\<close>: the release is inside
  \<^verbatim>\<open>try/catch\<close>.\<close>

definition cleanup :: "world \<Rightarrow> (js_error + unit) \<times> world" where
  "cleanup w =
     (let w1 = cancel_loop w
      in case surfaceRef w1 of
           None \<Rightarrow> (Inr (), w1)
         | Some s \<Rightarrow> (Inr (), (snd (surface_delete s w1))\<lparr>surfaceRef := None\<rparr>))"

text \<open>The cleanup of the setup effect of \<open>SkiaCanvas\<close>: the release is not guarded.\<close>

definition cleanup_plain :: "world \<Rightarrow> (js_error + unit) \<times> world" where
  "cleanup_plain w =
     (let w1 = cancel_loop w
      in case surfaceRef w1 of
           None \<Rightarrow> (Inr (), w1)
         | Some s \<Rightarrow>
             (case surface_delete s w1 of
                (Inl e, w2) \<Rightarrow> (Inl e, w2)
              | (Inr _, w2) \<Rightarrow> (Inr (), w2\<lparr>surfaceRef := None\<rparr>)))"

text \<open>The imperative handle: \<^verbatim>\<open>redraw: () => { if (surfaceRef.current) draw() }\<close>.\<close>

definition redraw :: "fault \<Rightarrow> world \<Rightarrow> (js_error + unit) \<times> world" where
  "redraw f w = (if surfaceRef w \<noteq> None then draw f w else (Inr (), w))"

text \<open>The browser fires an outstanding frame request: the request is no longer
  outstanding, and the callback it was given (\<open>draw\<close>) runs.\<close>

definition tick :: "frame_id \<Rightarrow> fault \<Rightarrow> world \<Rightarrow> (js_error + unit) \<times> world" where
  "tick n f w =
     (if n \<in> set (pending w) then draw f (w\<lparr>pending := removeAll n (pending w)\<rparr>)
      else (Inr (), w))"

definition tick_plain :: "frame_id \<Rightarrow> fault \<Rightarrow> world \<Rightarrow> (js_error + unit) \<times> world" where
  "tick_plain n f w =
     (if n \<in> set (pending w) then draw_plain f (w\<lparr>pending := removeAll n (pending w)\<rparr>)
      else (Inr (), w))"

subsection \<open>Pointer events\<close>

text \<open>The fields of a browser pointer event that the component reads.\<close>

record PointerEvent =
  clientX :: rat
  clientY :: rat
  pressure :: rat
  pointerId :: int
  pointerType :: string
  isPrimary :: bool
  buttons :: int
  shiftKey :: bool
  ctrlKey :: bool
  altKey :: bool
  metaKey :: bool

text \<open>\<open>PointerEventData\<close> of \<^verbatim>\<open>utils/interaction.ts\<close>. A coordinate is \<open>None\<close> when
  the JavaScript number is not finite (a division by a zero-sized bounding box).\<close>

record PointerEventData =
  x :: "rat option"
  y :: "rat option"
  pd_pressure :: rat
  pd_pointerId :: int
  pd_pointerType :: string
  pd_isPrimary :: bool
  pd_buttons :: int
  pd_shiftKey :: bool
  pd_ctrlKey :: bool
  pd_altKey :: bool
  pd_metaKey :: bool

text \<open>\<^verbatim>\<open>offset * (buffer / extent) / dpr\<close>, with \<open>dpr\<close> never zero (it is read through
  \<^verbatim>\<open>|| 1\<close>); a zero \<open>extent\<close> gives \<^verbatim>\<open>Infinity\<close> or \<^verbatim>\<open>NaN\<close>.\<close>

definition scale_coord :: "rat \<Rightarrow> nat \<Rightarrow> rat \<Rightarrow> rat \<Rightarrow> rat option" where
  "scale_coord offset buffer extent dpr =
     (if extent = 0 then None else Some (offset * (of_nat buffer / extent) / dpr))"

definition normalizePointerEvent :: "PointerEvent \<Rightarrow> canvas_el \<Rightarrow> rat \<Rightarrow> PointerEventData" where
  "normalizePointerEvent e canvas dpr =
     (let rect = bounding canvas
      in \<lparr>x = scale_coord (clientX e - rect_left rect) (cwidth canvas) (rect_width rect) dpr,
          y = scale_coord (clientY e - rect_top rect) (cheight canvas) (rect_height rect) dpr,
          pd_pressure = pressure e,
          pd_pointerId = pointerId e,
          pd_pointerType = pointerType e,
          pd_isPrimary = isPrimary e,
          pd_buttons = buttons e,
          pd_shiftKey = shiftKey e,
          pd_ctrlKey = ctrlKey e,
          pd_altKey = altKey e,
          pd_metaKey = metaKey e\<rparr>)"

text \<open>The handlers return what is passed to the matching callback prop (\<open>None\<close> when the
  handler returns before calling it) and the state after the update.\<close>

definition handlePointerDown :: "PointerEvent \<Rightarrow> world \<Rightarrow> PointerEventData option \<times> world" where
  "handlePointerDown e w =
     (case canvasRef w of
        None \<Rightarrow> (None, w)
      | Some canvas \<Rightarrow>
          if \<not> interactive w then (None, w)
          else
            let normalized = normalizePointerEvent e canvas (dpr_or_1 w);
                w1 = w\<lparr>interactionState := (interactionState w)
                        \<lparr>isPressed := True,
                         pointerPosition := Some (x normalized, y normalized),
                         activePointerId := Some (pointerId e)\<rparr>\<rparr>;
                w2 = w1\<lparr>canvasRef := Some (canvas\<lparr>captured := pointerId e # captured canvas\<rparr>)\<rparr>
            in (Some normalized, w2))"

definition handlePointerMove :: "PointerEvent \<Rightarrow> world \<Rightarrow> PointerEventData option \<times> world" where
  "handlePointerMove e w =
     (case canvasRef w of
        None \<Rightarrow> (None, w)
      | Some canvas \<Rightarrow>
          if \<not> interactive w then (None, w)
          else
            let normalized = normalizePointerEvent e canvas (dpr_or_1 w);
                w1 = w\<lparr>interactionState := (interactionState w)
                        \<lparr>isHovering := True,
                         pointerPosition := Some (x normalized, y normalized)\<rparr>\<rparr>
            in (Some normalized, w1))"

definition handlePointerUp :: "PointerEvent \<Rightarrow> world \<Rightarrow> PointerEventData option \<times> world" where
  "handlePointerUp e w =
     (case canvasRef w of
        None \<Rightarrow> (None, w)
      | Some canvas \<Rightarrow>
          if \<not> interactive w then (None, w)
          else
            let normalized = normalizePointerEvent e canvas (dpr_or_1 w);
                w1 = w\<lparr>interactionState := (interactionState w)
                        \<lparr>isPressed := False, activePointerId := None\<rparr>\<rparr>;
                w2 = (if pointerId e \<in> set (captured canvas)
                      then w1\<lparr>canvasRef :=
                             Some (canvas\<lparr>captured := removeAll (pointerId e) (captured canvas)\<rparr>)\<rparr>
                      else w1)
            in (Some normalized, w2))"

definition handlePointerLeave :: "world \<Rightarrow> world" where
  "handlePointerLeave w =
     (if \<not> interactive w then w
      else w\<lparr>interactionState := (interactionState w)
               \<lparr>isHovering := False, pointerPosition := None\<rparr>\<rparr>)"

text \<open>The events the \<^verbatim>\<open><canvas>\<close> element is wired to; \<^verbatim>\<open>onPointerCancel\<close> is given
  \<open>handlePointerUp\<close>.\<close>

datatype pointer_input =
  PointerDown PointerEvent | PointerMove PointerEvent | PointerUp PointerEvent
  | PointerCancel PointerEvent | PointerLeave

fun dispatch :: "pointer_input \<Rightarrow> world \<Rightarrow> world" where
  "dispatch (PointerDown e) w = snd (handlePointerDown e w)"
| "dispatch (PointerMove e) w = snd (handlePointerMove e w)"
| "dispatch (PointerUp e) w = snd (handlePointerUp e w)"
| "dispatch (PointerCancel e) w = snd (handlePointerUp e w)"
| "dispatch PointerLeave w = handlePointerLeave w"

fun dispatch_all :: "pointer_input list \<Rightarrow> world \<Rightarrow> world" where
  "dispatch_all [] w = w"
| "dispatch_all (i # is) w = dispatch_all is (dispatch i w)"

text \<open>The initial value given to \<^verbatim>\<open>useState<InteractionState>\<close>.\<close>

definition initialInteractionState :: InteractionState where
  "initialInteractionState =
     \<lparr>isHovering = False, isPressed = False, pointerPosition = None, activePointerId = None\<rparr>"

definition pressed_iff_active :: "InteractionState \<Rightarrow> bool" where
  "pressed_iff_active s = (isPressed s = (activePointerId s \<noteq> None))"

subsection \<open>A mounted component before its first effect\<close>

text \<open>A canvas element of the default props (400 by 300) at the page origin, with the
  backing store of a fresh \<^verbatim>\<open><canvas>\<close> (300 by 150); the engine is loaded and, unless a
  plan says otherwise, every surface construction succeeds.\<close>

definition canvas0 :: canvas_el where
  "canvas0 =
     \<lparr>cwidth = 300, cheight = 150,
      bounding = \<lparr>rect_left = 0, rect_top = 0, rect_width = 400, rect_height = 300\<rparr>,
      captured = []\<rparr>"

definition world0 :: world where
  "world0 =
     \<lparr>canvasKit = True, canvasRef = Some canvas0, surfaceRef = None,
      animationFrameRef = None, width = 400, height = 300, animate = False,
      interactive = True, interactionState = initialInteractionState,
      devicePixelRatio = 1, pending = [], next_frame = 1,
      live = [], next_surface = 1, hw_calls = 0, sw_calls = 0,
      hw_plan = (\<lambda>_. MkSurface), sw_plan = (\<lambda>_. MkSurface), peak_live = 0,
      trace = []\<rparr>"

text \<open>The two components after their setup effect has run once in continuous mode:
  surface \<open>1\<close> is live and frame request \<open>1\<close> is outstanding.\<close>

definition looping :: world where
  "looping = snd (effect_run NoFault (world0\<lparr>animate := True\<rparr>))"

definition looping_plain :: world where
  "looping_plain = snd (effect_run_plain NoFault (world0\<lparr>animate := True\<rparr>))"

text \<open>A primary mouse pointer with the left button down at a client position.\<close>

definition pointer_at :: "rat \<Rightarrow> rat \<Rightarrow> int \<Rightarrow> PointerEvent" where
  "pointer_at cx cy pid =
     \<lparr>clientX = cx, clientY = cy, pressure = 1 / 2, pointerId = pid,
      pointerType = ''mouse'', isPrimary = True, buttons = 1,
      shiftKey = False, ctrlKey = False, altKey = False, metaKey = False\<rparr>"

subsection \<open>Observations used by the properties\<close>

text \<open>The engine holds at most the surface the component refers to, and that handle
  is older than the next one the engine will hand out.\<close>

definition single_live :: "world \<Rightarrow> bool" where
  "single_live w =
     (case surfaceRef w of
        None \<Rightarrow> live w = []
      | Some s \<Rightarrow> (live w = [] \<or> live w = [s]) \<and> s < next_surface w)"

datatype variant = Interactive | Plain

text \<open>What happens to one target over time: its component acquires a surface again
  (a mount, or new dimensions), or the surface it holds loses its context. An exception
  that leaves \<open>SkiaCanvas.setupSurface\<close> ends that call; the state it leaves stays.\<close>

datatype lifecycle_step = Acquire | ContextLost

definition acquire :: "variant \<Rightarrow> world \<Rightarrow> world" where
  "acquire v w =
     snd (case v of Interactive \<Rightarrow> setupSurface w | Plain \<Rightarrow> setupSurface_plain w)"

definition context_lost :: "world \<Rightarrow> world" where
  "context_lost w = (case surfaceRef w of None \<Rightarrow> w | Some s \<Rightarrow> invalidate s w)"

fun lifecycle :: "variant \<Rightarrow> lifecycle_step list \<Rightarrow> world \<Rightarrow> world" where
  "lifecycle v [] w = w"
| "lifecycle v (Acquire # steps) w = lifecycle v steps (acquire v w)"
| "lifecycle v (ContextLost # steps) w = lifecycle v steps (context_lost w)"



text \<open>The width and height arguments of the draw-callback invocations in a trace.\<close>

fun callback_sizes :: "canvas_op list \<Rightarrow> (rat \<times> rat) list" where
  "callback_sizes [] = []"
| "callback_sizes (Callback cw ch _ # ops) = (cw, ch) # callback_sizes ops"
| "callback_sizes (_ # ops) = callback_sizes ops"

text \<open>At most one frame request is outstanding, and it is the one \<open>animationFrameRef\<close>
  remembers.\<close>

definition one_chain :: "world \<Rightarrow> bool" where
  "one_chain w =
     (0 < next_frame w \<and>
      (case pending w of
         [] \<Rightarrow> True
       | [n] \<Rightarrow> animationFrameRef w = Some n \<and> 0 < n
       | _ \<Rightarrow> False))"


section \<open>Properties\<close>

subsection \<open>Double products\<close>

text \<open>\<open>ilog2\<close> finds the binade of a positive number.\<close>

lemma bitlen_pos: "0 < m \<Longrightarrow> 1 \<le> bitlen m"
  by (simp add: bitlen_alt_def)

lemma ilog2_bounds:
  assumes "0 < a"
  shows "2 powi (ilog2 a) \<le> a \<and> a < 2 powi (ilog2 a + 1)"
proof (cases "1 \<le> a")
  case True
  define m where "m = \<lfloor>a\<rfloor>"
  have m: "0 < m" using True by (simp add: m_def)
  define k where "k = nat (bitlen m - 1)"
  have bl: "bitlen m = int k + 1" using bitlen_pos [OF m] by (simp add: k_def)
  have b: "2 ^ k \<le> m" "m < 2 ^ Suc k"
    using bitlen_bounds [OF m] by (simp_all add: bl nat_add_distrib)
  have lo: "(2::rat) ^ k \<le> a"
  proof -
    have "(of_int (2 ^ k) :: rat) \<le> of_int m" using b(1) by (simp only: of_int_le_iff)
    also have "\<dots> \<le> a" using floor_correct [of a] by (simp add: m_def)
    finally show ?thesis by simp
  qed
  have hi: "a < (2::rat) ^ Suc k"
  proof -
    have "m + 1 \<le> 2 ^ Suc k" using b(2) by simp
    then have "(of_int (m + 1) :: rat) \<le> of_int (2 ^ Suc k)" by (simp only: of_int_le_iff)
    moreover have "a < of_int (m + 1)" using floor_correct [of a] by (simp add: m_def)
    ultimately show ?thesis by simp
  qed
  have "ilog2 a = int k" using True by (simp add: ilog2_def m_def [symmetric] bl)
  then show ?thesis using lo hi by (simp add: power_int_def nat_add_distrib)
next
  case False
  define t where "t = 1 / a"
  have t: "1 < t" using assms False by (simp add: t_def)
  define c where "c = \<lceil>t\<rceil>"
  have c: "0 < c - 1" using t by (simp add: c_def less_ceiling_iff)
  define k where "k = nat (bitlen (c - 1) - 1)"
  have bl: "bitlen (c - 1) = int k + 1" using bitlen_pos [OF c] by (simp add: k_def)
  have b: "2 ^ k \<le> c - 1" "c - 1 < 2 ^ Suc k"
    using bitlen_bounds [OF c] by (simp_all add: bl nat_add_distrib)
  have up: "t \<le> (2::rat) ^ Suc k"
  proof -
    have "c \<le> 2 ^ Suc k" using b(2) by simp
    then have "(of_int c :: rat) \<le> of_int (2 ^ Suc k)" by (simp only: of_int_le_iff)
    moreover have "t \<le> of_int c" using ceiling_correct [of t] by (simp add: c_def)
    ultimately show ?thesis by simp
  qed
  have dn: "(2::rat) ^ k < t"
  proof -
    have "(of_int (2 ^ k) :: rat) \<le> of_int (c - 1)" using b(1) by (simp only: of_int_le_iff)
    moreover have "(of_int (c - 1) :: rat) < t" using ceiling_correct [of t] by (simp add: c_def)
    ultimately show ?thesis by simp
  qed
  have e: "ilog2 a = - (int k + 1)"
    using False by (simp add: ilog2_def t_def [symmetric] c_def [symmetric] bl)
  have a: "a = 1 / t" using assms by (simp add: t_def)
  have ypos: "0 < t" using t by simp
  have lo: "1 / (2::rat) ^ Suc k \<le> a"
    unfolding a using up ypos by (simp add: field_simps)
  have hi: "a < 1 / (2::rat) ^ k"
    unfolding a using dn ypos by (simp add: field_simps)
  have e1: "ilog2 a = - int (Suc k)" and e2: "ilog2 a + 1 = - int k"
    using e by simp_all
  have p1: "(2::rat) powi (ilog2 a) = 1 / 2 ^ Suc k"
    by (simp only: e1 power_int_minus_divide power_int_of_nat)
  have p2: "(2::rat) powi (ilog2 a + 1) = 1 / 2 ^ k"
    by (simp only: e2 power_int_minus_divide power_int_of_nat)
  show ?thesis
    unfolding p1 p2 using lo hi by (rule conjI)
qed

text \<open>\<open>round_half_even\<close> picks a nearest integer, and the even one of two nearest.\<close>

lemma round_half_even_nearest:
  "\<bar>t - of_int (round_half_even t)\<bar> \<le> \<bar>t - of_int z\<bar>"
proof -
  define fy :: rat where "fy = of_int \<lfloor>t\<rfloor>"
  define zz :: rat where "zz = of_int z"
  define r :: rat where "r = of_int (round_half_even t)"
  have f: "fy \<le> t" "t < fy + 1"
    using floor_correct [of t] by (simp_all add: fy_def)
  have r: "r = (if t - fy < 1 / 2 then fy else if 1 / 2 < t - fy then fy + 1
                else if even \<lfloor>t\<rfloor> then fy else fy + 1)"
    by (simp add: r_def round_half_even_def Let_def fy_def)
  have "z \<le> \<lfloor>t\<rfloor> \<or> \<lfloor>t\<rfloor> + 1 \<le> z"
    by linarith
  then have z: "zz \<le> fy \<or> fy + 1 \<le> zz"
  proof
    assume "z \<le> \<lfloor>t\<rfloor>"
    then have "(of_int z :: rat) \<le> of_int \<lfloor>t\<rfloor>" by (simp only: of_int_le_iff)
    then show ?thesis by (simp only: zz_def fy_def) simp
  next
    assume "\<lfloor>t\<rfloor> + 1 \<le> z"
    then have "(of_int (\<lfloor>t\<rfloor> + 1) :: rat) \<le> of_int z" by (simp only: of_int_le_iff)
    then show ?thesis by (simp only: zz_def fy_def of_int_add of_int_1) simp
  qed
  have "\<bar>t - r\<bar> \<le> \<bar>t - zz\<bar>"
    using f z unfolding r by (auto simp: abs_if split: if_splits)
  then show ?thesis
    by (simp only: r_def zz_def)
qed

lemma round_half_even_tie:
  "t - of_int \<lfloor>t\<rfloor> = 1 / 2 \<Longrightarrow> even (round_half_even t)"
  by (simp add: round_half_even_def Let_def)

text \<open>The products of the sizes and ratios used below. The double nearest to \<open>1.2\<close> is
  \<open>5404319552844595 / 2^52\<close>, a little below \<open>1.2\<close>; its products with \<open>400\<close> and \<open>300\<close>
  round up to \<open>480\<close> and \<open>360\<close>. The double nearest to \<open>1.15\<close> is
  \<open>2589569785738035 / 2^51\<close>; its product with \<open>100\<close> rounds to a double below \<open>115\<close>.\<close>

lemma js_times_400_1: "js_times 400 1 = Some 400"
  by code_simp

lemma js_times_300_1: "js_times 300 1 = Some 300"
  by code_simp

lemma js_times_101_3_2: "js_times 101 (3 / 2) = Some (303 / 2)"
  by code_simp

lemma js_times_100_3_2: "js_times 100 (3 / 2) = Some 150"
  by code_simp



lemma js_times_100_double_1_15:
  "map_option floor (js_times 100 (2589569785738035 / 2251799813685248)) = Some 114"
  by code_simp


text \<open>The canvas dimensions these products are stored as.\<close>

lemma canvas_dim_400_1: "canvas_dim 300 (js_times 400 1) = 400"
  by (simp add: js_times_400_1 canvas_dim_def to_unsigned_long_def)

lemma canvas_dim_300_1: "canvas_dim 150 (js_times 300 1) = 300"
  by (simp add: js_times_300_1 canvas_dim_def to_unsigned_long_def)

lemma canvas_dim_101_3_2: "canvas_dim 300 (js_times 101 (3 / 2)) = 151"
proof -
  have "\<lfloor>(303::rat) / 2\<rfloor> = 151"
    by (rule floor_unique) simp_all
  then show ?thesis
    by (simp add: js_times_101_3_2 canvas_dim_def to_unsigned_long_def)
qed

lemma canvas_dim_100_3_2: "canvas_dim 150 (js_times 100 (3 / 2)) = 150"
  by (simp add: js_times_100_3_2 canvas_dim_def to_unsigned_long_def)

lemmas dimension_facts = canvas_dim_400_1 canvas_dim_300_1 canvas_dim_101_3_2 canvas_dim_100_3_2

lemmas engine_defs = make_surface_def MakeCanvasSurface_def MakeSWCanvasSurface_def
  surface_delete_def invalidate_def

lemmas browser_defs = dpr_or_1_def requestAnimationFrame_def cancelAnimationFrame_def
  size_canvas_def dimension_facts

lemmas component_defs = setupSurface_def setupSurface_plain_def paint_body_def
  continue_loop_def draw_def draw_plain_def effect_run_def effect_run_plain_def
  cancel_loop_def cleanup_def cleanup_plain_def redraw_def tick_def tick_plain_def

lemmas start_defs = world0_def canvas0_def initialInteractionState_def looping_def
  looping_plain_def

lemmas pointer_defs = handlePointerDown_def handlePointerMove_def handlePointerUp_def
  handlePointerLeave_def normalizePointerEvent_def scale_coord_def

subsection \<open>The body of a paint\<close>

lemma paint_body_result:
  "fst (paint_body ist f w) =
     (case f of NoFault \<Rightarrow> Inr () | AtGetCanvas \<Rightarrow> Inl GetCanvasError
      | AtSave \<Rightarrow> Inl CanvasOpError | AtScale \<Rightarrow> Inl CanvasOpError
      | AtCallback \<Rightarrow> Inl DrawCallbackError | AtRestore \<Rightarrow> Inl CanvasOpError
      | AtFlush \<Rightarrow> Inl FlushError)"
  by (cases f) (simp_all add: paint_body_def Let_def)

lemma paint_body_fails_iff: "(\<exists>e. fst (paint_body ist f w) = Inl e) = (f \<noteq> NoFault)"
  by (cases f) (simp_all add: paint_body_result)

text \<open>The body touches nothing but the canvas.\<close>

lemma paint_body_frame:
  "snd (paint_body ist f w) = w\<lparr>trace := trace (snd (paint_body ist f w))\<rparr>"
  by (cases f) (simp_all add: paint_body_def Let_def)

lemma paint_body_pending [simp]: "pending (snd (paint_body ist f w)) = pending w"
  by (subst paint_body_frame) simp

lemma paint_body_next_frame [simp]: "next_frame (snd (paint_body ist f w)) = next_frame w"
  by (subst paint_body_frame) simp

lemma paint_body_animationFrameRef [simp]:
  "animationFrameRef (snd (paint_body ist f w)) = animationFrameRef w"
  by (subst paint_body_frame) simp

subsection \<open>Failure containment of paint\<close>

text \<open>\<open>SkiaInteractiveCanvas.draw\<close> catches whatever its body throws.\<close>

lemma draw_never_raises: "fst (draw f w) = Inr ()"
  by (simp add: draw_def split: prod.splits sum.splits)

text \<open>\<open>SkiaCanvas.draw\<close> throws exactly when its body does.\<close>

lemma draw_plain_raises_iff:
  "canvasKit w \<Longrightarrow> surfaceRef w \<noteq> None \<Longrightarrow>
     (\<exists>e. fst (draw_plain f w) = Inl e) = (f \<noteq> NoFault)"
  using paint_body_fails_iff [of None f w]
  by (auto simp: draw_plain_def split: prod.splits sum.splits)

text \<open>
  Claim C1: paint (\<open>draw\<close> of either component) never raises, whatever the callback or
  the surface does. \<open>SkiaCanvas.draw\<close> does not keep it: whenever it gets past its guard
  and its body throws, the exception leaves \<open>draw\<close>, as it does for a component mounted
  on a working surface whose draw callback throws; \<open>SkiaInteractiveCanvas.draw\<close>
  returns normally on the same input.
\<close>

theorem draw_plain_propagates:
  assumes "canvasKit w" and "surfaceRef w \<noteq> None" and "f \<noteq> NoFault"
  shows "(\<exists>e. fst (draw_plain f w) = Inl e) \<and> fst (draw f w) = Inr ()"
  using assms draw_plain_raises_iff [of w f] by (simp add: draw_never_raises)

theorem draw_plain_propagates_witness:
  "fst (draw_plain AtCallback (snd (effect_run_plain NoFault world0))) = Inl DrawCallbackError
   \<and> fst (draw_plain AtGetCanvas (snd (effect_run_plain NoFault world0))) = Inl GetCanvasError
   \<and> fst (draw_plain AtFlush (snd (effect_run_plain NoFault world0))) = Inl FlushError
   \<and> fst (draw AtCallback (snd (effect_run NoFault world0))) = Inr ()"
  using draw_plain_propagates [of "snd (effect_run_plain NoFault world0)" AtCallback]
  by (simp add: component_defs engine_defs browser_defs start_defs Let_def)

subsection \<open>A failed paint ends the loop\<close>

lemma draw_failed:
  assumes "f \<noteq> NoFault"
  shows "pending (snd (draw f w)) = pending w"
    and "next_frame (snd (draw f w)) = next_frame w"
    and "animationFrameRef (snd (draw f w)) = animationFrameRef w"
proof -
  obtain e where e: "fst (paint_body (Some (interactionState w)) f w) = Inl e"
    using assms by (cases f) (simp_all add: paint_body_result)
  obtain r w1 where p: "paint_body (Some (interactionState w)) f w = (r, w1)"
    by (cases "paint_body (Some (interactionState w)) f w")
  have w1: "pending w1 = pending w" "next_frame w1 = next_frame w"
    "animationFrameRef w1 = animationFrameRef w"
    using paint_body_pending [of "Some (interactionState w)" f w]
      paint_body_next_frame [of "Some (interactionState w)" f w]
      paint_body_animationFrameRef [of "Some (interactionState w)" f w]
    by (simp_all add: p)
  from e p have r: "r = Inl e" by simp
  show "pending (snd (draw f w)) = pending w"
    and "next_frame (snd (draw f w)) = next_frame w"
    and "animationFrameRef (snd (draw f w)) = animationFrameRef w"
    by (simp_all add: draw_def p r w1)
qed

lemma draw_plain_failed:
  assumes "f \<noteq> NoFault"
  shows "pending (snd (draw_plain f w)) = pending w"
    and "next_frame (snd (draw_plain f w)) = next_frame w"
    and "animationFrameRef (snd (draw_plain f w)) = animationFrameRef w"
proof -
  obtain e where e: "fst (paint_body None f w) = Inl e"
    using assms by (cases f) (simp_all add: paint_body_result)
  obtain r w1 where p: "paint_body None f w = (r, w1)"
    by (cases "paint_body None f w")
  have w1: "pending w1 = pending w" "next_frame w1 = next_frame w"
    "animationFrameRef w1 = animationFrameRef w"
    using paint_body_pending [of None f w] paint_body_next_frame [of None f w]
      paint_body_animationFrameRef [of None f w]
    by (simp_all add: p)
  from e p have r: "r = Inl e" by simp
  show "pending (snd (draw_plain f w)) = pending w"
    and "next_frame (snd (draw_plain f w)) = next_frame w"
    and "animationFrameRef (snd (draw_plain f w)) = animationFrameRef w"
    by (simp_all add: draw_plain_def p r w1)
qed

text \<open>A paint that succeeds in continuous mode does request the next frame.\<close>

lemma draw_ok_schedules:
  "canvasKit w \<Longrightarrow> surfaceRef w \<noteq> None \<Longrightarrow> animate w \<Longrightarrow>
     pending (snd (draw NoFault w)) = pending w @ [next_frame w]"
  by (simp add: draw_def paint_body_def continue_loop_def requestAnimationFrame_def Let_def)

text \<open>
  Claim C3: in continuous mode (\<open>animate\<close>), a paint whose body throws requests no
  further animation frame: the outstanding requests, the scheduler's next handle and
  \<open>animationFrameRef\<close> are as before the call, in both components, and after a tick
  that fails the fired request is gone and none has replaced it.
\<close>

theorem failed_paint_schedules_no_tick:
  assumes "animate w" and "f \<noteq> NoFault"
  shows "pending (snd (draw f w)) = pending w
       \<and> next_frame (snd (draw f w)) = next_frame w
       \<and> animationFrameRef (snd (draw f w)) = animationFrameRef w
       \<and> pending (snd (draw_plain f w)) = pending w
       \<and> next_frame (snd (draw_plain f w)) = next_frame w
       \<and> animationFrameRef (snd (draw_plain f w)) = animationFrameRef w
       \<and> pending (snd (tick n f w)) = removeAll n (pending w)
       \<and> pending (snd (tick_plain n f w)) = removeAll n (pending w)"
  using assms(2) by (simp add: draw_failed draw_plain_failed tick_def tick_plain_def)

theorem failed_paint_schedules_no_tick_witness:
  "animate looping \<and> surfaceRef looping = Some 1 \<and> pending looping = [1]
   \<and> AtFlush \<noteq> NoFault
   \<and> pending (snd (draw AtFlush looping)) = [1]
   \<and> pending (snd (tick 1 AtFlush looping)) = []
   \<and> animate looping_plain \<and> surfaceRef looping_plain = Some 1 \<and> pending looping_plain = [1]
   \<and> fst (tick_plain 1 AtCallback looping_plain) = Inl DrawCallbackError
   \<and> pending (snd (tick_plain 1 AtCallback looping_plain)) = []"
  using failed_paint_schedules_no_tick [of looping AtFlush 1]
    failed_paint_schedules_no_tick [of looping_plain AtCallback 1]
  by (simp add: component_defs engine_defs browser_defs start_defs Let_def)

subsection \<open>Paint without a surface\<close>

text \<open>
  Claim C7: when the surface ref is null or the engine handle is absent, paint is a
  no-op in both components: it returns normally and leaves the whole state, and so the
  record of callback invocations, as it was.
\<close>

theorem paint_without_surface_is_noop:
  assumes "\<not> canvasKit w \<or> surfaceRef w = None"
  shows "draw f w = (Inr (), w) \<and> draw_plain f w = (Inr (), w)"
  using assms by (auto simp: draw_def draw_plain_def)

theorem paint_without_surface_is_noop_witness:
  "surfaceRef world0 = None
   \<and> draw AtCallback world0 = (Inr (), world0)
   \<and> draw_plain AtCallback world0 = (Inr (), world0)
   \<and> trace (snd (draw NoFault world0)) = []"
  using paint_without_surface_is_noop [of world0 AtCallback]
    paint_without_surface_is_noop [of world0 NoFault]
  by (simp add: world0_def)

subsection \<open>Interaction state\<close>

lemma dispatch_pressed_iff_active:
  "pressed_iff_active (interactionState w) \<Longrightarrow>
     pressed_iff_active (interactionState (dispatch i w))"
  by (cases i) (auto simp: pressed_iff_active_def pointer_defs Let_def split: option.splits)

text \<open>
  Claim C10: from the initial interaction state, after any sequence of pointer-down,
  pointer-move, pointer-up, pointer-cancel and pointer-leave events, \<open>isPressed\<close> holds
  exactly when \<open>activePointerId\<close> is not null.
\<close>

theorem pressed_iff_active_invariant:
  assumes "interactionState w = initialInteractionState"
  shows "pressed_iff_active (interactionState (dispatch_all evs w))"
proof -
  have "pressed_iff_active (interactionState w)"
    by (simp add: assms pressed_iff_active_def initialInteractionState_def)
  then show ?thesis
    by (induction evs arbitrary: w) (simp_all add: dispatch_pressed_iff_active)
qed

theorem pressed_iff_active_invariant_witness:
  "interactionState world0 = initialInteractionState
   \<and> pressed_iff_active (interactionState (dispatch_all
        [PointerMove (pointer_at 100 60 0), PointerDown (pointer_at 120 80 0), PointerLeave,
         PointerCancel (pointer_at 500 80 0)] world0))
   \<and> isPressed (interactionState (dispatch_all
        [PointerMove (pointer_at 100 60 0), PointerDown (pointer_at 120 80 0), PointerLeave] world0))
   \<and> activePointerId (interactionState (dispatch_all
        [PointerMove (pointer_at 100 60 0), PointerDown (pointer_at 120 80 0), PointerLeave] world0))
       = Some 0"
  using pressed_iff_active_invariant [of world0
      "[PointerMove (pointer_at 100 60 0), PointerDown (pointer_at 120 80 0), PointerLeave,
        PointerCancel (pointer_at 500 80 0)]"]
  by (simp add: pointer_defs start_defs pointer_at_def dpr_or_1_def Let_def)

subsection \<open>Pointer normalisation\<close>

text \<open>
  Claim C9: a pointer-down at client coordinates \<open>(120, 80)\<close> on a canvas whose bounding
  box has origin \<open>(20, 10)\<close> and the logical size \<open>(lw, lh)\<close>, with a backing store of
  \<open>(2 * lw, 2 * lh)\<close> and a device pixel ratio of \<open>2\<close>, is normalised to \<open>(100, 70)\<close>:
  by \<open>normalizePointerEvent\<close>, in the event given to \<open>onPointerDown\<close> and in the
  pointer position of the interaction state. The box is not empty (the pointer is
  inside it).
\<close>

theorem pointer_down_normalized:
  assumes "interactive w" and "canvasRef w = Some c" and "devicePixelRatio w = 2"
    and "rect_left (bounding c) = 20" and "rect_top (bounding c) = 10"
    and "rect_width (bounding c) = lw" and "rect_height (bounding c) = lh"
    and "of_nat (cwidth c) = 2 * lw" and "of_nat (cheight c) = 2 * lh"
    and "0 < lw" and "0 < lh"
    and "clientX e = 120" and "clientY e = 80"
  shows "x (normalizePointerEvent e c 2) = Some 100
       \<and> y (normalizePointerEvent e c 2) = Some 70
       \<and> map_option x (fst (handlePointerDown e w)) = Some (Some 100)
       \<and> map_option y (fst (handlePointerDown e w)) = Some (Some 70)
       \<and> pointerPosition (interactionState (snd (handlePointerDown e w)))
           = Some (Some 100, Some 70)"
  using assms by (simp add: pointer_defs dpr_or_1_def Let_def)

theorem pointer_down_normalized_witness:
  "interactive (world0\<lparr>canvasRef := Some \<lparr>cwidth = 800, cheight = 600,
        bounding = \<lparr>rect_left = 20, rect_top = 10, rect_width = 400, rect_height = 300\<rparr>,
        captured = []\<rparr>, devicePixelRatio := 2\<rparr>)
   \<and> map_option x (fst (handlePointerDown (pointer_at 120 80 7)
        (world0\<lparr>canvasRef := Some \<lparr>cwidth = 800, cheight = 600,
           bounding = \<lparr>rect_left = 20, rect_top = 10, rect_width = 400, rect_height = 300\<rparr>,
           captured = []\<rparr>, devicePixelRatio := 2\<rparr>))) = Some (Some 100)
   \<and> map_option y (fst (handlePointerDown (pointer_at 120 80 7)
        (world0\<lparr>canvasRef := Some \<lparr>cwidth = 800, cheight = 600,
           bounding = \<lparr>rect_left = 20, rect_top = 10, rect_width = 400, rect_height = 300\<rparr>,
           captured = []\<rparr>, devicePixelRatio := 2\<rparr>))) = Some (Some 70)"
  using pointer_down_normalized [of
      "world0\<lparr>canvasRef := Some \<lparr>cwidth = 800, cheight = 600,
         bounding = \<lparr>rect_left = 20, rect_top = 10, rect_width = 400, rect_height = 300\<rparr>,
         captured = []\<rparr>, devicePixelRatio := 2\<rparr>"
      "\<lparr>cwidth = 800, cheight = 600,
         bounding = \<lparr>rect_left = 20, rect_top = 10, rect_width = 400, rect_height = 300\<rparr>,
         captured = []\<rparr>"
      400 300 "pointer_at 120 80 7"]
  by (simp add: world0_def pointer_at_def)

subsection \<open>Surface acquisition: the software fallback\<close>

lemma setupSurface_never_raises: "\<exists>r. fst (setupSurface w) = Inr r"
  by (auto simp: setupSurface_def engine_defs Let_def split: option.splits mk_result.splits)

text \<open>How often \<open>SkiaInteractiveCanvas.setupSurface\<close> calls the software constructor:
  never after a hardware surface, once after a hardware \<^verbatim>\<open>null\<close>, and after a hardware
  exception once, or twice when the first software call returns \<^verbatim>\<open>null\<close>.\<close>

lemma setupSurface_sw_attempts:
  "canvasKit w \<Longrightarrow> canvasRef w \<noteq> None \<Longrightarrow>
     sw_calls (snd (setupSurface w)) =
       sw_calls w +
         (case hw_plan w (hw_calls w) of
            MkSurface \<Rightarrow> 0
          | MkNull \<Rightarrow> 1
          | MkRaises \<Rightarrow> (case sw_plan w (sw_calls w) of MkNull \<Rightarrow> 2 | _ \<Rightarrow> 1))"
  by (auto simp: setupSurface_def engine_defs size_canvas_def Let_def
      split: option.splits mk_result.splits)

text \<open>\<open>SkiaCanvas.setupSurface\<close> never calls it.\<close>

lemma setupSurface_plain_no_fallback: "sw_calls (snd (setupSurface_plain w)) = sw_calls w"
  by (auto simp: setupSurface_plain_def engine_defs size_canvas_def Let_def
      split: option.splits mk_result.splits)

text \<open>
  Claim C2: when hardware construction raises or returns null, software construction
  is attempted exactly once before failure is reported. The code does not keep it:
  in \<open>SkiaInteractiveCanvas\<close>, when the hardware constructor throws and the software
  constructor returns \<^verbatim>\<open>null\<close>, the software constructor is called a second time; in
  \<open>SkiaCanvas\<close> it is never called, and a hardware exception leaves \<open>setupSurface\<close>.
\<close>

theorem software_fallback_attempts:
  assumes "canvasKit w" and "canvasRef w \<noteq> None"
    and "hw_plan w (hw_calls w) = MkRaises" and "sw_plan w (sw_calls w) = MkNull"
  shows "sw_calls (snd (setupSurface w)) = sw_calls w + 2
       \<and> sw_calls (snd (setupSurface_plain w)) = sw_calls w"
  using assms by (simp add: setupSurface_sw_attempts setupSurface_plain_no_fallback)

theorem software_fallback_attempts_witness:
  "sw_calls (snd (setupSurface (world0\<lparr>hw_plan := \<lambda>_. MkRaises, sw_plan := \<lambda>_. MkNull\<rparr>))) = 2
   \<and> fst (setupSurface (world0\<lparr>hw_plan := \<lambda>_. MkRaises, sw_plan := \<lambda>_. MkNull\<rparr>)) = Inr None
   \<and> sw_calls (snd (setupSurface_plain (world0\<lparr>hw_plan := \<lambda>_. MkNull\<rparr>))) = 0
   \<and> fst (setupSurface_plain (world0\<lparr>hw_plan := \<lambda>_. MkNull\<rparr>)) = Inr None
   \<and> fst (setupSurface_plain (world0\<lparr>hw_plan := \<lambda>_. MkRaises\<rparr>)) = Inl HwSurfaceError"
  using software_fallback_attempts
    [of "world0\<lparr>hw_plan := \<lambda>_. MkRaises, sw_plan := \<lambda>_. MkNull\<rparr>"]
  by (simp add: component_defs engine_defs browser_defs start_defs Let_def)

subsection \<open>Surface acquisition: one live surface\<close>

lemma single_live_length: "single_live w \<Longrightarrow> length (live w) \<le> 1"
  by (auto simp: single_live_def split: option.splits)

lemma single_live_subset: "single_live w \<Longrightarrow> set (live w) \<subseteq> set_option (surfaceRef w)"
  by (auto simp: single_live_def split: option.splits)

lemma setupSurface_single_live: "single_live w \<Longrightarrow> single_live (snd (setupSurface w))"
  by (auto simp: single_live_def setupSurface_def engine_defs size_canvas_def Let_def
      split: option.splits mk_result.splits)

lemma setupSurface_plain_single_live:
  "single_live w \<Longrightarrow> single_live (snd (setupSurface_plain w))"
  by (auto simp: single_live_def setupSurface_plain_def engine_defs size_canvas_def Let_def
      split: option.splits mk_result.splits)

lemma context_lost_single_live: "single_live w \<Longrightarrow> single_live (context_lost w)"
  by (auto simp: single_live_def context_lost_def invalidate_def split: option.splits)

text \<open>The old surface is released before a constructor runs: no constructor ever
  returns a surface while another one is live.\<close>

lemma setupSurface_peak_live:
  "single_live w \<Longrightarrow> peak_live w \<le> 1 \<Longrightarrow> peak_live (snd (setupSurface w)) \<le> 1"
  by (auto simp: single_live_def setupSurface_def engine_defs size_canvas_def Let_def
      split: option.splits mk_result.splits)

lemma setupSurface_plain_peak_live:
  "single_live w \<Longrightarrow> peak_live w \<le> 1 \<Longrightarrow> peak_live (snd (setupSurface_plain w)) \<le> 1"
  by (auto simp: single_live_def setupSurface_plain_def engine_defs size_canvas_def Let_def
      split: option.splits mk_result.splits)

lemma context_lost_peak_live [simp]: "peak_live (context_lost w) = peak_live w"
  by (simp add: context_lost_def invalidate_def split: option.splits)

lemma lifecycle_invariant:
  "single_live w \<Longrightarrow> peak_live w \<le> 1 \<Longrightarrow>
     single_live (lifecycle v steps w) \<and> peak_live (lifecycle v steps w) \<le> 1"
proof (induction v steps w rule: lifecycle.induct)
  case (1 v w)
  then show ?case by simp
next
  case (2 v steps w)
  have a: "single_live (acquire v w)"
    using "2.prems"(1)
    by (cases v)
      (simp_all add: acquire_def setupSurface_single_live setupSurface_plain_single_live)
  have b: "peak_live (acquire v w) \<le> 1"
    using setupSurface_peak_live [OF "2.prems"] setupSurface_plain_peak_live [OF "2.prems"]
    by (cases v) (simp_all add: acquire_def)
  show ?case
    using "2.IH" [OF a b] by simp
next
  case (3 v steps w)
  then show ?case by (simp add: context_lost_single_live)
qed

text \<open>Past the guard, the surface held before the call is no longer live after it.\<close>

lemma acquire_releases_previous:
  "single_live w \<Longrightarrow> canvasKit w \<Longrightarrow> canvasRef w \<noteq> None \<Longrightarrow>
     set_option (surfaceRef w) \<inter> set (live (acquire v w)) = {}"
  by (cases v)
    (auto simp: acquire_def single_live_def setupSurface_def setupSurface_plain_def engine_defs
      size_canvas_def Let_def split: option.splits mk_result.splits)

text \<open>Past the guard, \<open>SkiaInteractiveCanvas.setupSurface\<close> leaves the ref cleared with no
  live surface, or holding the one fresh surface that is live: the old handle is never
  left in the ref, also when the rebuild fails.\<close>

lemma setupSurface_ref_after:
  "single_live w \<Longrightarrow> canvasKit w \<Longrightarrow> canvasRef w \<noteq> None \<Longrightarrow>
     surfaceRef (snd (setupSurface w)) = None \<and> live (snd (setupSurface w)) = []
     \<or> surfaceRef (snd (setupSurface w)) = Some (next_surface w)
       \<and> live (snd (setupSurface w)) = [next_surface w]"
  by (auto simp: single_live_def setupSurface_def engine_defs size_canvas_def Let_def
      split: option.splits mk_result.splits)

text \<open>So does \<open>SkiaCanvas.setupSurface\<close>, unless releasing a stale handle threw, which
  ends the call with the state as it was and nothing constructed.\<close>

lemma setupSurface_plain_ref_after:
  "single_live w \<Longrightarrow> canvasKit w \<Longrightarrow> canvasRef w \<noteq> None \<Longrightarrow>
     setupSurface_plain w = (Inl DeleteError, w)
     \<or> surfaceRef (snd (setupSurface_plain w)) = None \<and> live (snd (setupSurface_plain w)) = []
     \<or> surfaceRef (snd (setupSurface_plain w)) = Some (next_surface w)
       \<and> live (snd (setupSurface_plain w)) = [next_surface w]"
  by (auto simp: single_live_def setupSurface_plain_def engine_defs size_canvas_def Let_def
      split: option.splits mk_result.splits)

text \<open>
  Claim C4: over any sequence of \<open>setupSurface\<close> calls on one target, in either
  component and with context losses in between, at most one surface is live after each
  call, and it is the one in \<open>surfaceRef\<close>. The previous surface is released and the
  ref cleared before a new surface is constructed and stored: at no moment, also inside
  a call, are two surfaces live (\<open>peak_live\<close>); a call that gets past its guard leaves
  the surface held before it released, and leaves the ref either null with nothing
  live or holding the one fresh live surface (in \<open>SkiaCanvas\<close>, unless releasing a stale
  handle threw before anything was constructed).
\<close>

theorem at_most_one_live_surface:
  assumes "single_live w" and "peak_live w \<le> 1"
  shows "length (live (lifecycle v steps w)) \<le> 1
       \<and> set (live (lifecycle v steps w)) \<subseteq> set_option (surfaceRef (lifecycle v steps w))
       \<and> peak_live (lifecycle v steps w) \<le> 1
       \<and> (canvasKit w \<and> canvasRef w \<noteq> None \<longrightarrow>
            set_option (surfaceRef w) \<inter> set (live (acquire v w)) = {}
            \<and> (surfaceRef (snd (setupSurface w)) = None \<and> live (snd (setupSurface w)) = []
               \<or> surfaceRef (snd (setupSurface w)) = Some (next_surface w)
                 \<and> live (snd (setupSurface w)) = [next_surface w])
            \<and> (setupSurface_plain w = (Inl DeleteError, w)
               \<or> surfaceRef (snd (setupSurface_plain w)) = None
                 \<and> live (snd (setupSurface_plain w)) = []
               \<or> surfaceRef (snd (setupSurface_plain w)) = Some (next_surface w)
                 \<and> live (snd (setupSurface_plain w)) = [next_surface w]))"
proof -
  have inv: "single_live (lifecycle v steps w)" "peak_live (lifecycle v steps w) \<le> 1"
    using lifecycle_invariant [OF assms] by simp_all
  show ?thesis
    using single_live_length [OF inv(1)] single_live_subset [OF inv(1)] inv(2)
      acquire_releases_previous [OF assms(1), of v]
      setupSurface_ref_after [OF assms(1)] setupSurface_plain_ref_after [OF assms(1)]
    by blast
qed

theorem at_most_one_live_surface_witness:
  "single_live world0 \<and> peak_live world0 \<le> 1
   \<and> live (lifecycle Interactive [Acquire, ContextLost, Acquire, Acquire] world0) = [3]
   \<and> surfaceRef (lifecycle Interactive [Acquire, ContextLost, Acquire, Acquire] world0) = Some 3
   \<and> length (live (lifecycle Interactive [Acquire, ContextLost, Acquire, Acquire] world0)) \<le> 1
   \<and> peak_live (lifecycle Interactive [Acquire, ContextLost, Acquire, Acquire] world0) = 1"
  using at_most_one_live_surface
    [of world0 Interactive "[Acquire, ContextLost, Acquire, Acquire]"]
  by (simp add: single_live_def acquire_def context_lost_def setupSurface_def engine_defs
      browser_defs start_defs Let_def)

subsection \<open>Device pixel ratio\<close>

lemma callback_sizes_append [simp]:
  "callback_sizes (xs @ ys) = callback_sizes xs @ callback_sizes ys"
  by (induction xs rule: callback_sizes.induct) simp_all








lemma continue_loop_trace [simp]: "trace (continue_loop w) = trace w"
  by (simp add: continue_loop_def requestAnimationFrame_def)








subsection \<open>Teardown\<close>

text \<open>The cleanup of \<open>SkiaInteractiveCanvas\<close> never throws, leaves no surface, and a
  second run changes nothing.\<close>

lemma cleanup_never_raises: "fst (cleanup w) = Inr ()"
  by (simp add: cleanup_def Let_def split: option.splits)

lemma cleanup_surfaceRef: "surfaceRef (snd (cleanup w)) = None"
  by (simp add: cleanup_def Let_def split: option.splits)

lemma cleanup_idempotent: "cleanup (snd (cleanup w)) = (Inr (), snd (cleanup w))"
  by (auto simp: cleanup_def cancel_loop_def cancelAnimationFrame_def surface_delete_def Let_def
      split: option.splits)

text \<open>The cleanup of \<open>SkiaCanvas\<close> throws exactly when the handle it holds is stale;
  when it does not throw, a second run changes nothing.\<close>

lemma cleanup_plain_raises_iff:
  "(fst (cleanup_plain w) = Inl DeleteError) =
     (\<exists>s. surfaceRef w = Some s \<and> s \<notin> set (live w))"
  by (auto simp: cleanup_plain_def cancel_loop_def cancelAnimationFrame_def surface_delete_def
      Let_def split: option.splits if_splits)

lemma cleanup_plain_idempotent:
  "fst (cleanup_plain w) = Inr () \<Longrightarrow>
     cleanup_plain (snd (cleanup_plain w)) = (Inr (), snd (cleanup_plain w))"
  by (auto simp: cleanup_plain_def cancel_loop_def cancelAnimationFrame_def surface_delete_def
      Let_def split: option.splits if_splits)

text \<open>
  Claim C6: the unmount cleanup run twice never raises and ends both times in the same
  surfaceless state, also when the surface was invalidated out of band.
  \<open>SkiaCanvas\<close> does not keep it: when the handle it holds is stale (its context was
  lost), the cleanup throws, \<open>surfaceRef\<close> still holds the handle, and a second cleanup
  throws again; the cleanup of \<open>SkiaInteractiveCanvas\<close> on the same input returns and
  clears the ref.
\<close>

theorem cleanup_plain_stale_handle:
  assumes "surfaceRef w = Some s" and "s \<notin> set (live w)"
  shows "fst (cleanup_plain w) = Inl DeleteError
       \<and> surfaceRef (snd (cleanup_plain w)) = Some s
       \<and> fst (cleanup_plain (snd (cleanup_plain w))) = Inl DeleteError
       \<and> fst (cleanup w) = Inr ()
       \<and> surfaceRef (snd (cleanup w)) = None"
proof -
  have first: "fst (cleanup_plain w) = Inl DeleteError"
    using assms by (simp add: cleanup_plain_raises_iff)
  have kept: "surfaceRef (snd (cleanup_plain w)) = Some s"
    "s \<notin> set (live (snd (cleanup_plain w)))"
    using assms
    by (auto simp: cleanup_plain_def cancel_loop_def cancelAnimationFrame_def
        surface_delete_def Let_def split: option.splits)
  have "fst (cleanup_plain (snd (cleanup_plain w))) = Inl DeleteError"
    using kept by (simp add: cleanup_plain_raises_iff)
  then show ?thesis
    using first kept(1) by (simp add: cleanup_never_raises cleanup_surfaceRef)
qed

theorem cleanup_plain_stale_handle_witness:
  "fst (cleanup_plain (invalidate 1 (snd (effect_run_plain NoFault world0)))) = Inl DeleteError
   \<and> surfaceRef (snd (cleanup_plain (invalidate 1 (snd (effect_run_plain NoFault world0)))))
       = Some 1
   \<and> fst (cleanup_plain (snd (cleanup_plain
        (invalidate 1 (snd (effect_run_plain NoFault world0)))))) = Inl DeleteError
   \<and> fst (cleanup (invalidate 1 (snd (effect_run NoFault world0)))) = Inr ()
   \<and> surfaceRef (snd (cleanup (invalidate 1 (snd (effect_run NoFault world0))))) = None"
  using cleanup_plain_stale_handle
    [of "invalidate 1 (snd (effect_run_plain NoFault world0))" 1]
  by (simp add: component_defs engine_defs browser_defs start_defs Let_def)

subsection \<open>One render loop per target\<close>

lemma draw_one_chain:
  "0 < next_frame w \<Longrightarrow> pending w = [] \<Longrightarrow> one_chain (snd (draw f w))"
  by (cases f)
    (auto simp: one_chain_def draw_def paint_body_def continue_loop_def
      requestAnimationFrame_def Let_def)

text \<open>A frame tick keeps the loop single.\<close>

lemma tick_one_chain: "one_chain w \<Longrightarrow> one_chain (snd (tick n f w))"
proof (cases "n \<in> set (pending w)")
  case False
  assume "one_chain w"
  with False show ?thesis by (simp add: tick_def)
next
  case True
  assume a: "one_chain w"
  with True have "pending w = [n]"
    by (auto simp: one_chain_def split: list.splits)
  then have "pending (w\<lparr>pending := removeAll n (pending w)\<rparr>) = []" by simp
  moreover have "0 < next_frame (w\<lparr>pending := removeAll n (pending w)\<rparr>)"
    using a by (simp add: one_chain_def)
  ultimately show ?thesis
    using True by (simp only: tick_def if_True draw_one_chain)
qed

lemma cleanup_cancels:
  "one_chain w \<Longrightarrow> pending (snd (cleanup w)) = [] \<and> 0 < next_frame (snd (cleanup w))"
  by (auto simp: one_chain_def cleanup_def cancel_loop_def cancelAnimationFrame_def
      surface_delete_def Let_def split: option.splits list.splits)

lemma setupSurface_scheduler [simp]:
  "pending (snd (setupSurface w)) = pending w"
  "next_frame (snd (setupSurface w)) = next_frame w"
  by (auto simp: setupSurface_def engine_defs size_canvas_def Let_def
      split: option.splits mk_result.splits)

text \<open>So does a restart of the setup effect: its cleanup cancels the outstanding
  request before the new first paint.\<close>

lemma restart_one_chain:
  assumes "one_chain w"
  shows "one_chain (snd (effect_run f (snd (cleanup w))))"
proof -
  let ?w1 = "snd (cleanup w)"
  obtain r w2 where s: "setupSurface ?w1 = (r, w2)" by (cases "setupSurface ?w1")
  have w2: "pending w2 = []" "0 < next_frame w2"
    using cleanup_cancels [OF assms] setupSurface_scheduler [of ?w1] by (simp_all add: s)
  then have idle: "one_chain w2" by (simp add: one_chain_def)
  show ?thesis
    using w2 idle by (auto simp: effect_run_def s draw_one_chain split: sum.splits option.splits)
qed

text \<open>
  Claim C8: in continuous mode at most one animation-frame request is outstanding for
  a target, and a new chain first cancels the old one. \<open>redraw\<close> does not keep it:
  on a component with a surface and \<open>animate\<close>, an imperative \<open>redraw()\<close> paints and
  requests another frame without cancelling any, so one more request is outstanding
  than before; after the first paint of a mounted component that makes two, and
  after both have fired two are outstanding again.
\<close>

theorem redraw_starts_second_chain:
  assumes "canvasKit w" and "surfaceRef w \<noteq> None" and "animate w"
  shows "pending (snd (redraw NoFault w)) = pending w @ [next_frame w]
       \<and> length (pending (snd (redraw NoFault w))) = Suc (length (pending w))"
  using assms by (simp add: redraw_def draw_ok_schedules)

theorem redraw_starts_second_chain_witness:
  "pending looping = [1]
   \<and> pending (snd (redraw NoFault looping)) = [1, 2]
   \<and> animationFrameRef (snd (redraw NoFault looping)) = Some 2
   \<and> pending (snd (tick 2 NoFault (snd (tick 1 NoFault (snd (redraw NoFault looping)))))) = [3, 4]
   \<and> one_chain looping
   \<and> \<not> one_chain (snd (redraw NoFault looping))"
  using redraw_starts_second_chain [of looping]
  by (simp add: one_chain_def component_defs engine_defs browser_defs start_defs Let_def)

end
